theory Spec2Isabelle
  imports Main
begin

section \<open>The Bravio voice assistant: interaction state machine of \<open>src/index.tsx\<close>\<close>

text \<open>
  The component \<open>App\<close> keeps its state in React state cells and reacts to events of the
  browser one at a time. Every handler of the source is embedded here as a function from
  the component state to the component state. The calls a handler makes on the platform
  (speech recognition, speech synthesis, the remote chat session, the console) and the
  calls of \<open>processCommand\<close> are recorded, in order, in a trace kept in the state.
\<close>

subsection \<open>Strings of the platform\<close>

text \<open>
  A string is a list of code units. The model covers the code units below 256 (the HOL
  type \<open>char\<close>), read as Unicode code points U+0000 to U+00FF. On these,
  \<open>String.prototype.toLowerCase\<close> maps each code unit on its own: the letters A to Z and
  the letters U+00C0 to U+00DE other than the multiplication sign U+00D7 move up by 32,
  every other code unit stays. \<open>String.prototype.trim\<close> removes white space and line
  terminators at both ends: U+0009 to U+000D, U+0020 and U+00A0 in this range.
\<close>

definition lowerUnit :: "char \<Rightarrow> char" where
  "lowerUnit c =
     (let n = (of_char c :: nat)
      in if (65 \<le> n \<and> n \<le> 90) \<or> (192 \<le> n \<and> n \<le> 222 \<and> n \<noteq> 215)
         then char_of (n + 32) else c)"

definition toLowerCase :: "string \<Rightarrow> string" where
  "toLowerCase s = map lowerUnit s"

definition isWhiteSpace :: "char \<Rightarrow> bool" where
  "isWhiteSpace c =
     (let n = (of_char c :: nat)
      in (9 \<le> n \<and> n \<le> 13) \<or> n = 32 \<or> n = 160)"

definition trim :: "string \<Rightarrow> string" where
  "trim s = rev (dropWhile isWhiteSpace (rev (dropWhile isWhiteSpace s)))"

text \<open>\<open>s.startsWith(w)\<close> and \<open>s.substring(n)\<close> (which clamps \<open>n\<close> to the length).\<close>

definition startsWith :: "string \<Rightarrow> string \<Rightarrow> bool" where
  "startsWith s w = (take (length w) s = w)"

definition substring :: "string \<Rightarrow> nat \<Rightarrow> string" where
  "substring s n = drop n s"

subsection \<open>Data model\<close>

datatype AppState = IDLE | LISTENING | THINKING | SPEAKING

datatype Author = user | assistant

record TranscriptItem =
  author :: Author
  itemText :: string

text \<open>
  A value that a \<open>catch\<close> clause can receive: an instance of \<open>Error\<close> with its message,
  or any other thrown value.
\<close>

datatype thrown = Error string | OtherValue

text \<open>
  How the promise of \<open>sendMessage\<close> settles: it resolves with a result whose \<open>text\<close> is a
  string or undefined, or it rejects with a thrown value.
\<close>

datatype remote = Resolved "string option" | Rejected thrown

datatype effect =
    PlayStartListeningSound
  | RecognitionStart
  | RecognitionStop
  | RecognitionAbort
  | SynthesisCancel
  | SynthesisSpeak string
  | SendMessage string
  | ConsoleError
  | ProcessCommand string

text \<open>
  The state cells of \<open>App\<close> that the handlers read or write, the two handles that may be
  missing (\<open>recognition\<close> and \<open>geminiChat.current\<close>, True when present), the reading of
  \<open>navigator.onLine\<close>, and the trace. The voice and rate settings only parametrise the
  utterance and are left out.

  \<open>handleEnd\<close> and \<open>handleError\<close> are memoised on \<open>appState\<close> (\<open>useCallback\<close> with
  \<open>appState\<close> among the dependencies) and attached to the recognition handle by the effect
  at lines 287 to 303. The attached listeners therefore read the \<open>appState\<close> of the render
  that created them, until that effect runs again. \<open>listenerAppState\<close> is this captured
  value; \<open>appState\<close> is the state cell itself, with every update made so far.
\<close>

record app =
  appState :: AppState
  listenerAppState :: AppState
  statusText :: string
  transcript :: "TranscriptItem list"
  criticalError :: "string option"
  textInput :: string
  recognition :: bool
  geminiChat :: bool
  onLine :: bool
  trace :: "effect list"

definition ASSISTANT_NAME :: string where
  "ASSISTANT_NAME = ''Bravio''"

definition idleStatus :: string where
  "idleStatus = ''Click the orb or type a command...''"

text \<open>The state after mounting, when initialisation succeeded.\<close>

definition initialApp :: app where
  "initialApp =
     \<lparr> appState = IDLE, listenerAppState = IDLE, statusText = idleStatus, transcript = [], criticalError = None,
       textInput = [], recognition = True, geminiChat = True, onLine = True, trace = [] \<rparr>"

text \<open>Truthiness of a value of type \<open>string | null\<close> (or \<open>string | undefined\<close>).\<close>

definition truthy :: "string option \<Rightarrow> bool" where
  "truthy v = (case v of None \<Rightarrow> False | Some t \<Rightarrow> t \<noteq> [])"

definition emit :: "effect \<Rightarrow> app \<Rightarrow> app" where
  "emit e s = s\<lparr>trace := trace s @ [e]\<rparr>"

text \<open>What the trace says was spoken, sent to the chat session, and dispatched.\<close>

fun spokenIn :: "effect list \<Rightarrow> string list" where
  "spokenIn [] = []"
| "spokenIn (SynthesisSpeak t # es) = t # spokenIn es"
| "spokenIn (e # es) = spokenIn es"

fun dispatchedIn :: "effect list \<Rightarrow> string list" where
  "dispatchedIn [] = []"
| "dispatchedIn (ProcessCommand c # es) = c # dispatchedIn es"
| "dispatchedIn (e # es) = dispatchedIn es"

fun startedIn :: "effect list \<Rightarrow> nat" where
  "startedIn [] = 0"
| "startedIn (RecognitionStart # es) = Suc (startedIn es)"
| "startedIn (e # es) = startedIn es"

fun sentIn :: "effect list \<Rightarrow> string list" where
  "sentIn [] = []"
| "sentIn (SendMessage c # es) = c # sentIn es"
| "sentIn (e # es) = sentIn es"

definition spoken :: "app \<Rightarrow> string list" where
  "spoken s = spokenIn (trace s)"

definition dispatched :: "app \<Rightarrow> string list" where
  "dispatched s = dispatchedIn (trace s)"

subsection \<open>Speaking and the dispatcher\<close>

text \<open>
  \<open>speakAndDisplay\<close> (lines 145 to 164): append to the transcript, enter SPEAKING, cancel
  any utterance in flight and speak. The completion handler of the utterance is
  \<open>utteranceOnEnd\<close> (lines 157 to 160).
\<close>

definition speakAndDisplay :: "string \<Rightarrow> Author \<Rightarrow> app \<Rightarrow> app" where
  "speakAndDisplay t a s =
     emit (SynthesisSpeak t) (emit SynthesisCancel
       (s\<lparr> transcript := transcript s @ [\<lparr>author = a, itemText = t\<rparr>],
           appState := SPEAKING,
           statusText := ''Speaking...'' \<rparr>))"

definition utteranceOnEnd :: "app \<Rightarrow> app" where
  "utteranceOnEnd s = s\<lparr>appState := IDLE, statusText := idleStatus\<rparr>"

definition emptyResponseMessage :: string where
  "emptyResponseMessage =
     ''I'm sorry, I couldn't generate a response for that. Please try another question.''"

definition offlineMessage :: string where
  "offlineMessage =
     ''It seems you're offline. Please check your internet connection and try again.''"

definition serviceErrorMessage :: string where
  "serviceErrorMessage =
     ''I'm sorry, an issue occurred with the AI service. Please try your request again in a moment.''"

text \<open>
  \<open>processCommand\<close> (lines 170 to 212) in three parts. \<open>processCommandBegin\<close> is lines 171
  to 173, before the \<open>try\<close>. \<open>processCommandTry\<close> is the \<open>try\<close> block: it ends normally
  (\<open>Inr\<close>) or throws (\<open>Inl\<close>, with the state reached at the throw). \<open>processCommandCatch\<close>
  is the \<open>catch\<close> block. The argument \<open>r\<close> says how the remote call settles; it is read
  only where the source awaits \<open>sendMessage\<close>. The function runs the dispatcher from
  the call to the end of its continuation: events that arrive while the call is pending
  are not interleaved with it.
\<close>

definition processCommandBegin :: "string \<Rightarrow> app \<Rightarrow> app" where
  "processCommandBegin command s =
     (emit (ProcessCommand command) s)
       \<lparr> transcript := transcript s @ [\<lparr>author = user, itemText = command\<rparr>],
         appState := THINKING,
         statusText := ''Thinking...'' \<rparr>"

definition processCommandTry :: "string \<Rightarrow> remote \<Rightarrow> app \<Rightarrow> (thrown \<times> app) + app" where
  "processCommandTry command r s =
     (if \<not> geminiChat s then Inl (Error ''Gemini chat is not initialized.'', s)
      else if \<not> onLine s then Inl (Error ''network-offline'', s)
      else
        (case r of
           Rejected e \<Rightarrow> Inl (e, emit (SendMessage command) s)
         | Resolved t \<Rightarrow>
             (let assistantMessage = map_option trim t
              in if truthy assistantMessage
                 then Inr (speakAndDisplay (case assistantMessage of Some m \<Rightarrow> m | None \<Rightarrow> [])
                             assistant (emit (SendMessage command) s))
                 else Inr (speakAndDisplay emptyResponseMessage
                             assistant (emit (SendMessage command) s)))))"

definition processCommandCatch :: "thrown \<Rightarrow> app \<Rightarrow> app" where
  "processCommandCatch e s =
     (let errorMessage =
            (if e = Error ''network-offline'' then offlineMessage else serviceErrorMessage)
      in speakAndDisplay errorMessage assistant (emit ConsoleError s))"

definition processCommand :: "string \<Rightarrow> remote \<Rightarrow> app \<Rightarrow> app" where
  "processCommand command r s =
     (case processCommandTry command r (processCommandBegin command s) of
        Inr s' \<Rightarrow> s'
      | Inl (e, s') \<Rightarrow> processCommandCatch e s')"

subsection \<open>Recognition events\<close>

definition wakeWord :: string where
  "wakeWord = toLowerCase ASSISTANT_NAME"

definition listeningPrompt :: string where
  "listeningPrompt = ''I'm listening. Please state your command.''"

definition wakeReminder :: string where
  "wakeReminder =
     ''Please start your command with my name, '' @ [CHR 0x22] @ ASSISTANT_NAME @ [CHR 0x22] @ ''.''"

text \<open>\<open>handleResult\<close> (lines 218 to 237), on the transcript of the first alternative.\<close>

definition handleResult :: "string \<Rightarrow> remote \<Rightarrow> app \<Rightarrow> app" where
  "handleResult userMessage r s =
     (if startsWith (trim (toLowerCase userMessage)) wakeWord
      then
        (let command = trim (substring (trim userMessage) (length wakeWord))
         in if command = [] then speakAndDisplay listeningPrompt assistant s
            else processCommand command r s)
      else speakAndDisplay wakeReminder assistant s)"

text \<open>
  \<open>handleEnd\<close> (lines 240 to 247). The test is on the \<open>appState\<close> the attached listener
  has captured, the updates are made to the state cells.
\<close>

definition handleEnd :: "app \<Rightarrow> app" where
  "handleEnd s =
     (if listenerAppState s = LISTENING then s\<lparr>appState := IDLE, statusText := idleStatus\<rparr>
      else s)"

definition microphoneDenied :: string where
  "microphoneDenied =
     ''Microphone access is not allowed. Please enable it in your browser settings and refresh the page.''"

text \<open>
  \<open>handleError\<close> (lines 250 to 281), on the error code of the event. The \<open>switch\<close> yields
  the message (null when none) and the state after the branch. The test at line 255 is on
  the captured \<open>appState\<close>, as in \<open>handleEnd\<close>.
\<close>

definition errorSwitch :: "string \<Rightarrow> app \<Rightarrow> string option \<times> app" where
  "errorSwitch code s =
     (if code = ''no-speech''
        then (Some ''I didn't hear anything. Could you please try again?'', s)
      else if code = ''not-allowed'' \<or> code = ''service-not-allowed''
        then (None, s\<lparr>criticalError := Some microphoneDenied\<rparr>)
      else if code = ''audio-capture''
        then (Some ''I'm having trouble with your microphone. Please make sure it's connected and enabled.'', s)
      else if code = ''network''
        then (Some ''A network error occurred with the speech service. Please check your internet connection.'', s)
      else (Some (''An error occurred with speech recognition: '' @ code @ ''. Please try again.''), s))"

definition handleError :: "string \<Rightarrow> app \<Rightarrow> app" where
  "handleError code s =
     (let s1 = emit ConsoleError s;
          s2 = (if listenerAppState s1 = LISTENING then s1\<lparr>appState := IDLE\<rparr> else s1)
      in case errorSwitch code s2 of
           (errorMessage, s3) \<Rightarrow>
             (if truthy errorMessage
              then speakAndDisplay (case errorMessage of Some m \<Rightarrow> m | None \<Rightarrow> []) assistant s3
              else s3))"

subsection \<open>User actions\<close>

definition isDisabled :: "app \<Rightarrow> bool" where
  "isDisabled s = (truthy (criticalError s) \<or> appState s = THINKING \<or> appState s = SPEAKING)"

text \<open>\<open>handleOrbClick\<close> (lines 350 to 363).\<close>

definition handleOrbClick :: "app \<Rightarrow> app" where
  "handleOrbClick s =
     (if truthy (criticalError s) \<or> \<not> recognition s then s
      else if appState s = IDLE
        then (emit RecognitionStart (emit PlayStartListeningSound s))
               \<lparr>appState := LISTENING, statusText := ''Listening...''\<rparr>
      else if appState s = LISTENING then emit RecognitionStop s
      else s)"

text \<open>\<open>handleTextSubmit\<close> (lines 365 to 371).\<close>

definition handleTextSubmit :: "remote \<Rightarrow> app \<Rightarrow> app" where
  "handleTextSubmit r s =
     (let command = trim (textInput s)
      in if command = [] \<or> isDisabled s then s
         else (processCommand command r s)\<lparr>textInput := []\<rparr>)"


subsection \<open>Rendering\<close>

text \<open>
  The effect at lines 287 to 303 runs again after a render in which one of the three
  recognition handlers has changed; \<open>handleEnd\<close> and \<open>handleError\<close> change when
  \<open>appState\<close> has. Its clean-up removes the old listeners, aborts recognition and cancels
  speech; then the handlers of the new render are attached. Without a recognition handle
  the effect does nothing. The model takes the render and the effect as one step, and
  leaves out the runs that a change of the voice settings causes.
\<close>

definition rerender :: "app \<Rightarrow> app" where
  "rerender s =
     (if \<not> recognition s \<or> listenerAppState s = appState s then s
      else (emit SynthesisCancel (emit RecognitionAbort s))\<lparr>listenerAppState := appState s\<rparr>)"

subsection \<open>The event loop\<close>

text \<open>
  The events the component reacts to, each with the data it carries: the recognised
  text, the error code, the text typed into the input field, and for the two events that
  may dispatch a command the way the remote call settles. \<open>Rerender\<close> is the render
  that follows a change of state, with its effects. \<open>react\<close> runs the handler the source
  attaches to the event, \<open>run\<close> a sequence of events in order. The handlers of the orb
  and of the form are read from the latest render by React itself; the model runs them
  on the current state cells.
\<close>

datatype event =
    OrbClick
  | TextChange string
  | TextSubmit remote
  | RecognitionResult string remote
  | RecognitionEnd
  | RecognitionError string
  | UtteranceEnd
  | Rerender

fun react :: "event \<Rightarrow> app \<Rightarrow> app" where
  "react OrbClick s = handleOrbClick s"
| "react (TextChange v) s = s\<lparr>textInput := v\<rparr>"
| "react (TextSubmit r) s = handleTextSubmit r s"
| "react (RecognitionResult userMessage r) s = handleResult userMessage r s"
| "react RecognitionEnd s = handleEnd s"
| "react (RecognitionError code) s = handleError code s"
| "react UtteranceEnd s = utteranceOnEnd s"
| "react Rerender s = rerender s"

fun run :: "event list \<Rightarrow> app \<Rightarrow> app" where
  "run [] s = s"
| "run (ev # evs) s = run evs (react ev s)"

section \<open>Properties\<close>

subsection \<open>Strings\<close>

lemma isWhiteSpace_lowerUnit: "isWhiteSpace (lowerUnit c) = isWhiteSpace c"
  by (auto simp add: isWhiteSpace_def lowerUnit_def Let_def)

lemma dropWhile_toLowerCase:
  "dropWhile isWhiteSpace (toLowerCase s) = toLowerCase (dropWhile isWhiteSpace s)"
  by (induction s) (simp_all add: toLowerCase_def isWhiteSpace_lowerUnit)

lemma rev_toLowerCase: "rev (toLowerCase s) = toLowerCase (rev s)"
  by (simp add: toLowerCase_def rev_map)

lemma trim_toLowerCase: "trim (toLowerCase s) = toLowerCase (trim s)"
  by (simp add: trim_def dropWhile_toLowerCase rev_toLowerCase)

lemma wakeWord_eq: "wakeWord = ''bravio''"
  by code_simp

lemma trim_Nil_iff: "trim x = [] \<longleftrightarrow> (\<forall>ch \<in> set x. isWhiteSpace ch)"
proof
  assume "trim x = []"
  then have "\<forall>ch \<in> set (dropWhile isWhiteSpace x). isWhiteSpace ch"
    by (simp add: trim_def dropWhile_eq_Nil_conv)
  then have "dropWhile isWhiteSpace x = []"
    by (metis hd_dropWhile hd_in_set)
  then show "\<forall>ch \<in> set x. isWhiteSpace ch"
    by (simp add: dropWhile_eq_Nil_conv)
next
  assume "\<forall>ch \<in> set x. isWhiteSpace ch"
  then show "trim x = []"
    by (auto simp add: trim_def dest: set_dropWhileD)
qed

subsection \<open>Traces\<close>

lemma spokenIn_append: "spokenIn (xs @ ys) = spokenIn xs @ spokenIn ys"
  by (induction xs rule: spokenIn.induct) simp_all

lemma dispatchedIn_append: "dispatchedIn (xs @ ys) = dispatchedIn xs @ dispatchedIn ys"
  by (induction xs rule: dispatchedIn.induct) simp_all

lemma sentIn_append: "sentIn (xs @ ys) = sentIn xs @ sentIn ys"
  by (induction xs rule: sentIn.induct) simp_all

lemma startedIn_append: "startedIn (xs @ ys) = startedIn xs + startedIn ys"
  by (induction xs rule: startedIn.induct) simp_all

lemma emit_fields:
  "transcript (emit e s) = transcript s"
  "appState (emit e s) = appState s"
  "listenerAppState (emit e s) = listenerAppState s"
  "criticalError (emit e s) = criticalError s"
  by (simp_all add: emit_def)

lemma speakAndDisplay_fields:
  "transcript (speakAndDisplay t a s) = transcript s @ [\<lparr>author = a, itemText = t\<rparr>]"
  "appState (speakAndDisplay t a s) = SPEAKING"
  "statusText (speakAndDisplay t a s) = ''Speaking...''"
  "trace (speakAndDisplay t a s) = trace s @ [SynthesisCancel, SynthesisSpeak t]"
  "criticalError (speakAndDisplay t a s) = criticalError s"
  "textInput (speakAndDisplay t a s) = textInput s"
  by (simp_all add: speakAndDisplay_def emit_def)

lemma processCommandBegin_fields:
  "transcript (processCommandBegin c s) = transcript s @ [\<lparr>author = user, itemText = c\<rparr>]"
  "appState (processCommandBegin c s) = THINKING"
  "statusText (processCommandBegin c s) = ''Thinking...''"
  "trace (processCommandBegin c s) = trace s @ [ProcessCommand c]"
  "criticalError (processCommandBegin c s) = criticalError s"
  "geminiChat (processCommandBegin c s) = geminiChat s"
  "onLine (processCommandBegin c s) = onLine s"
  by (simp_all add: processCommandBegin_def emit_def)

lemma spoken_speakAndDisplay: "spoken (speakAndDisplay t a s) = spoken s @ [t]"
  by (simp add: spoken_def speakAndDisplay_fields spokenIn_append)

lemma spoken_emit:
  "spoken (emit ConsoleError s) = spoken s"
  "spoken (emit (SendMessage c) s) = spoken s"
  "spoken (processCommandBegin c s) = spoken s"
  by (simp_all add: spoken_def emit_def processCommandBegin_def spokenIn_append)

lemma count_list_append: "count_list (xs @ ys) x = count_list xs x + count_list ys x"
  by (induction xs) simp_all

text \<open>The dispatcher, flattened: one line per way through \<open>try\<close> and \<open>catch\<close>.\<close>

lemma processCommand_uninitialised:
  "\<not> geminiChat s \<Longrightarrow>
     processCommand c r s =
       speakAndDisplay serviceErrorMessage assistant (emit ConsoleError (processCommandBegin c s))"
  by (simp add: processCommand_def processCommandTry_def processCommandCatch_def
      processCommandBegin_fields)

lemma processCommand_offline:
  "geminiChat s \<Longrightarrow> \<not> onLine s \<Longrightarrow>
     processCommand c r s =
       speakAndDisplay offlineMessage assistant (emit ConsoleError (processCommandBegin c s))"
  by (simp add: processCommand_def processCommandTry_def processCommandCatch_def
      processCommandBegin_fields)

lemma processCommand_rejected:
  "geminiChat s \<Longrightarrow> onLine s \<Longrightarrow>
     processCommand c (Rejected e) s =
       speakAndDisplay (if e = Error ''network-offline'' then offlineMessage else serviceErrorMessage)
         assistant (emit ConsoleError (emit (SendMessage c) (processCommandBegin c s)))"
  by (simp add: processCommand_def processCommandTry_def processCommandCatch_def
      processCommandBegin_fields)

lemma processCommand_resolved:
  "geminiChat s \<Longrightarrow> onLine s \<Longrightarrow>
     processCommand c (Resolved t) s =
       speakAndDisplay
         (case t of None \<Rightarrow> emptyResponseMessage
          | Some x \<Rightarrow> if trim x = [] then emptyResponseMessage else trim x)
         assistant (emit (SendMessage c) (processCommandBegin c s))"
  by (cases t)
    (simp_all add: processCommand_def processCommandTry_def processCommandBegin_fields truthy_def)

text \<open>Whatever happens, the dispatcher speaks one message and leaves the rest alone.\<close>

lemma processCommand_shape:
  "\<exists>m es. processCommand c r s =
       speakAndDisplay m assistant
         ((processCommandBegin c s)\<lparr>trace := trace s @ ProcessCommand c # es\<rparr>)
     \<and> dispatchedIn es = [] \<and> spokenIn es = [] \<and> startedIn es = 0 \<and> m \<noteq> []"
proof (cases "geminiChat s")
  case False
  then show ?thesis
    by (intro exI [of _ serviceErrorMessage] exI [of _ "[ConsoleError]"])
      (simp add: processCommand_uninitialised emit_def processCommandBegin_fields
        serviceErrorMessage_def)
next
  case chat: True
  show ?thesis
  proof (cases "onLine s")
    case False
    with chat show ?thesis
      by (intro exI [of _ offlineMessage] exI [of _ "[ConsoleError]"])
        (simp add: processCommand_offline emit_def processCommandBegin_fields
          offlineMessage_def)
  next
    case net: True
    show ?thesis
    proof (cases r)
      case (Rejected e)
      with chat net show ?thesis
        by (intro exI [of _ "if e = Error ''network-offline'' then offlineMessage
              else serviceErrorMessage"] exI [of _ "[SendMessage c, ConsoleError]"])
          (simp add: processCommand_rejected emit_def processCommandBegin_fields
            offlineMessage_def serviceErrorMessage_def)
    next
      case (Resolved t)
      with chat net show ?thesis
        by (intro exI [of _ "case t of None \<Rightarrow> emptyResponseMessage
              | Some x \<Rightarrow> if trim x = [] then emptyResponseMessage else trim x"]
            exI [of _ "[SendMessage c]"])
          (simp add: processCommand_resolved emit_def processCommandBegin_fields
            emptyResponseMessage_def split: option.split)
    qed
  qed
qed

lemma processCommand_fields:
  "appState (processCommand c r s) = SPEAKING"
  "statusText (processCommand c r s) = ''Speaking...''"
  "criticalError (processCommand c r s) = criticalError s"
  "textInput (processCommand c r s) = textInput s"
  "dispatched (processCommand c r s) = dispatched s @ [c]"
  "length (spoken (processCommand c r s)) = Suc (length (spoken s))"
  "startedIn (trace (processCommand c r s)) = startedIn (trace s)"
  using processCommand_shape [of c r s]
  by (auto simp add: speakAndDisplay_fields processCommandBegin_def emit_def dispatched_def
      spoken_def dispatchedIn_append spokenIn_append startedIn_append)

lemma processCommand_transcript:
  "\<exists>m. m \<noteq> [] \<and> transcript (processCommand c r s) =
     transcript s @ [\<lparr>author = user, itemText = c\<rparr>, \<lparr>author = assistant, itemText = m\<rparr>]
     \<and> spoken (processCommand c r s) = spoken s @ [m]"
  using processCommand_shape [of c r s]
  by (auto simp add: speakAndDisplay_fields processCommandBegin_def emit_def spoken_def
      spokenIn_append)

subsection \<open>The recognition end event\<close>

text \<open>
  The handler resets the machine exactly when the \<open>appState\<close> its listener has captured is
  LISTENING, whatever the state cell holds by then.
\<close>

lemma handleEnd_on_captured_state:
  "handleEnd s =
     (if listenerAppState s = LISTENING then s\<lparr>appState := IDLE, statusText := idleStatus\<rparr>
      else s)"
  by (simp add: handleEnd_def)

text \<open>
  The machine in LISTENING, with listeners that have captured LISTENING, is what the orb
  click and the render after it produce from the initial state.
\<close>

lemma listening_after_orb_click:
  "run [OrbClick, Rerender] initialApp =
     initialApp\<lparr>appState := LISTENING, listenerAppState := LISTENING,
       statusText := ''Listening...'',
       trace := [PlayStartListeningSound, RecognitionStart, RecognitionAbort, SynthesisCancel]\<rparr>"
  by (simp add: handleOrbClick_def rerender_def emit_def initialApp_def truthy_def)

text \<open>
  Claim C9 says that the handler of the recognition end event resets the machine to IDLE
  when and only when the current state is LISTENING, and leaves the interaction state and
  the status text unchanged in IDLE, THINKING and SPEAKING. The comment in the handler
  says the same. The code does otherwise when the end event arrives before the component
  has rendered again. The machine is in LISTENING and its listeners have captured
  LISTENING. Recognition yields \<open>hello\<close>, which lacks the wake name, so the reminder is
  spoken and the state cell is SPEAKING. The end event that follows is handled by the
  listener that still reads LISTENING: it sets IDLE and the idle status text while the
  reminder is being spoken. Had the component rendered between the two events, the end
  event would have left SPEAKING alone. In the same way a state cell that holds THINKING
  is reset to IDLE by a listener that has captured LISTENING.
\<close>

theorem handleEnd_stale_listener_resets_speaking:
  "appState (run [RecognitionResult ''hello'' (Resolved None)]
      (initialApp\<lparr>appState := LISTENING, listenerAppState := LISTENING\<rparr>)) = SPEAKING
   \<and> statusText (run [RecognitionResult ''hello'' (Resolved None)]
      (initialApp\<lparr>appState := LISTENING, listenerAppState := LISTENING\<rparr>)) = ''Speaking...''
   \<and> appState (run [RecognitionResult ''hello'' (Resolved None), RecognitionEnd]
      (initialApp\<lparr>appState := LISTENING, listenerAppState := LISTENING\<rparr>)) = IDLE
   \<and> statusText (run [RecognitionResult ''hello'' (Resolved None), RecognitionEnd]
      (initialApp\<lparr>appState := LISTENING, listenerAppState := LISTENING\<rparr>)) = idleStatus
   \<and> appState (run [RecognitionResult ''hello'' (Resolved None), Rerender, RecognitionEnd]
      (initialApp\<lparr>appState := LISTENING, listenerAppState := LISTENING\<rparr>)) = SPEAKING
   \<and> appState (handleEnd (initialApp\<lparr>appState := THINKING, listenerAppState := LISTENING\<rparr>))
     = IDLE"
proof -
  let ?listening = "initialApp\<lparr>appState := LISTENING, listenerAppState := LISTENING\<rparr>"
  let ?speaking = "speakAndDisplay wakeReminder assistant ?listening"
  have absent: "\<not> startsWith (trim (toLowerCase ''hello'')) wakeWord"
    by code_simp
  have heard: "run [RecognitionResult ''hello'' (Resolved None)] ?listening = ?speaking"
    using absent by (simp add: handleResult_def)
  have ended: "run [RecognitionResult ''hello'' (Resolved None), RecognitionEnd] ?listening =
      handleEnd ?speaking"
    using absent by (simp add: handleResult_def)
  have rendered: "run [RecognitionResult ''hello'' (Resolved None), Rerender, RecognitionEnd]
      ?listening = handleEnd (rerender ?speaking)"
    using absent by (simp add: handleResult_def)
  have captured: "listenerAppState ?speaking = LISTENING" "recognition ?speaking"
    by (simp_all add: speakAndDisplay_def emit_def initialApp_def)
  have fresh: "listenerAppState (rerender ?speaking) = SPEAKING"
    "appState (rerender ?speaking) = SPEAKING"
    by (simp_all add: rerender_def captured speakAndDisplay_fields emit_fields)
  show ?thesis
    by (simp only: heard ended rendered)
      (simp add: speakAndDisplay_fields handleEnd_def captured fresh)
qed

subsection \<open>The transcript\<close>

text \<open>
  Claim C7. The transcript is append-only. The append in \<open>speakAndDisplay\<close> and the
  append at the start of \<open>processCommand\<close> each put one entry at the end: the length grows
  by exactly one and the entry at every earlier position is the entry that was there, with
  its author and its text. A whole run of \<open>processCommand\<close> makes both appends, so the
  length grows by two and the earlier entries stay as well.
\<close>

theorem transcript_append_only:
  "transcript (speakAndDisplay t a s) = transcript s @ [\<lparr>author = a, itemText = t\<rparr>]
   \<and> transcript (processCommandBegin c s) = transcript s @ [\<lparr>author = user, itemText = c\<rparr>]
   \<and> length (transcript (speakAndDisplay t a s)) = Suc (length (transcript s))
   \<and> length (transcript (processCommandBegin c s)) = Suc (length (transcript s))
   \<and> (\<forall>i < length (transcript s).
         transcript (speakAndDisplay t a s) ! i = transcript s ! i
       \<and> transcript (processCommandBegin c s) ! i = transcript s ! i
       \<and> transcript (processCommand c r s) ! i = transcript s ! i)
   \<and> length (transcript (processCommand c r s)) = Suc (Suc (length (transcript s)))"
  using processCommand_transcript [of c r s]
  by (auto simp add: speakAndDisplay_fields processCommandBegin_fields nth_append)

theorem transcript_append_only_witness:
  "(0::nat) < length (transcript (initialApp\<lparr>transcript := [\<lparr>author = user, itemText = ''hi''\<rparr>]\<rparr>))
   \<and> transcript (speakAndDisplay ''yes'' assistant
        (initialApp\<lparr>transcript := [\<lparr>author = user, itemText = ''hi''\<rparr>]\<rparr>)) ! 0
      = \<lparr>author = user, itemText = ''hi''\<rparr>
   \<and> transcript (processCommand ''go'' (Resolved None)
        (initialApp\<lparr>transcript := [\<lparr>author = user, itemText = ''hi''\<rparr>]\<rparr>)) ! 0
      = \<lparr>author = user, itemText = ''hi''\<rparr>"
  using transcript_append_only [of "''yes''" assistant
      "initialApp\<lparr>transcript := [\<lparr>author = user, itemText = ''hi''\<rparr>]\<rparr>" "''go''" "Resolved None"]
  by (simp add: initialApp_def)

subsection \<open>Recognition results\<close>

lemma startsWith_remainder:
  assumes "startsWith (trim (toLowerCase u)) wakeWord"
  shows "\<exists>w. toLowerCase w = wakeWord \<and> trim u = w @ substring (trim u) (length wakeWord)"
proof -
  have "take (length wakeWord) (toLowerCase (trim u)) = wakeWord"
    using assms by (simp add: startsWith_def trim_toLowerCase)
  then have "toLowerCase (take (length wakeWord) (trim u)) = wakeWord"
    by (simp add: toLowerCase_def take_map)
  then show ?thesis
    by (intro exI [of _ "take (length wakeWord) (trim u)"]) (simp add: substring_def)
qed

lemma handleResult_valid:
  "startsWith (trim (toLowerCase u)) wakeWord \<Longrightarrow>
   trim (substring (trim u) (length wakeWord)) \<noteq> [] \<Longrightarrow>
   handleResult u r s = processCommand (trim (substring (trim u) (length wakeWord))) r s"
  by (simp add: handleResult_def Let_def)

lemma handleResult_invalid:
  "\<not> (startsWith (trim (toLowerCase u)) wakeWord
       \<and> trim (substring (trim u) (length wakeWord)) \<noteq> []) \<Longrightarrow>
   handleResult u r s =
     speakAndDisplay
       (if startsWith (trim (toLowerCase u)) wakeWord then listeningPrompt else wakeReminder)
       assistant s"
  by (auto simp add: handleResult_def Let_def)

lemma example_utterance:
  "startsWith (trim (toLowerCase ''bravio what time is it'')) wakeWord"
  "trim (substring (trim ''bravio what time is it'') (length wakeWord)) = ''what time is it''"
  by code_simp+

text \<open>
  Claim C1. For every recognised utterance whose trimmed, lower-cased form starts with the
  wake name and whose remainder (the trimmed utterance without its first six code units),
  trimmed again, is not empty, \<open>handleResult\<close> is \<open>processCommand\<close> on exactly that trimmed
  remainder, and this is the one command it dispatches. What is stripped is the wake name
  in some mix of cases: the trimmed utterance is a word that lower-cases to \<open>bravio\<close>
  followed by the remainder. In particular the utterance \<open>bravio what time is it\<close>
  dispatches the command \<open>what time is it\<close>.
\<close>

theorem handleResult_dispatches_remainder:
  "startsWith (trim (toLowerCase u)) wakeWord \<Longrightarrow>
   trim (substring (trim u) (length wakeWord)) \<noteq> [] \<Longrightarrow>
     handleResult u r s = processCommand (trim (substring (trim u) (length wakeWord))) r s
   \<and> dispatched (handleResult u r s) = dispatched s @ [trim (substring (trim u) (length wakeWord))]
   \<and> (\<exists>w. toLowerCase w = ''bravio'' \<and> trim u = w @ substring (trim u) (length wakeWord))
   \<and> dispatched (handleResult ''bravio what time is it'' r s) = dispatched s @ [''what time is it'']"
  using startsWith_remainder [of u] handleResult_valid [of "''bravio what time is it''" r s]
  by (simp add: handleResult_valid processCommand_fields wakeWord_eq [symmetric] example_utterance)

theorem handleResult_dispatches_remainder_witness:
  "startsWith (trim (toLowerCase ''  Bravio   turn on the lights '')) wakeWord
   \<and> trim (substring (trim ''  Bravio   turn on the lights '') (length wakeWord)) \<noteq> []
   \<and> dispatched (handleResult ''  Bravio   turn on the lights '' (Resolved None) initialApp)
       = [''turn on the lights'']"
proof -
  have a: "startsWith (trim (toLowerCase ''  Bravio   turn on the lights '')) wakeWord"
    by code_simp
  have b: "trim (substring (trim ''  Bravio   turn on the lights '') (length wakeWord))
      = ''turn on the lights''"
    by code_simp
  have b': "trim (substring (trim ''  Bravio   turn on the lights '') (length wakeWord)) \<noteq> []"
    by (simp add: b)
  have c: "dispatched initialApp = []"
    by (simp add: dispatched_def initialApp_def)
  have "dispatched (handleResult ''  Bravio   turn on the lights '' (Resolved None) initialApp)
      = dispatched initialApp
          @ [trim (substring (trim ''  Bravio   turn on the lights '') (length wakeWord))]"
    using handleResult_dispatches_remainder [OF a b', of "Resolved None" initialApp]
    by blast
  then show ?thesis
    using a b' by (simp add: b c)
qed

text \<open>
  Claim C4. For every final recognition result that is not a valid wake-prefixed command
  (the wake name is absent, or nothing but white space follows it), \<open>handleResult\<close>
  dispatches nothing and speaks, and adds to the transcript, one guidance message: the
  prompt \<open>I'm listening. Please state your command.\<close> when the wake name is there, so in
  particular when the utterance is the wake name alone, and the reminder to start with the
  assistant's name when the wake name is absent.
\<close>

theorem handleResult_guides_without_dispatch:
  "\<not> (startsWith (trim (toLowerCase u)) wakeWord
       \<and> trim (substring (trim u) (length wakeWord)) \<noteq> []) \<Longrightarrow>
     dispatched (handleResult u r s) = dispatched s
   \<and> spoken (handleResult u r s) = spoken s @
        [if startsWith (trim (toLowerCase u)) wakeWord then listeningPrompt else wakeReminder]
   \<and> transcript (handleResult u r s) = transcript s @
        [\<lparr>author = assistant, itemText =
            (if startsWith (trim (toLowerCase u)) wakeWord then listeningPrompt else wakeReminder)\<rparr>]
   \<and> (toLowerCase (trim u) = wakeWord \<longrightarrow> spoken (handleResult u r s) = spoken s @ [listeningPrompt])"
proof -
  assume inv: "\<not> (startsWith (trim (toLowerCase u)) wakeWord
       \<and> trim (substring (trim u) (length wakeWord)) \<noteq> [])"
  have alone: "startsWith (trim (toLowerCase u)) wakeWord" if "toLowerCase (trim u) = wakeWord"
    using that by (simp add: startsWith_def trim_toLowerCase)
  show ?thesis
    using alone
    by (simp add: handleResult_invalid [OF inv] speakAndDisplay_fields dispatched_def spoken_def
        dispatchedIn_append spokenIn_append)
qed

theorem handleResult_guides_without_dispatch_witness:
  "\<not> (startsWith (trim (toLowerCase ''Bravio'')) wakeWord
       \<and> trim (substring (trim ''Bravio'') (length wakeWord)) \<noteq> [])
   \<and> toLowerCase (trim ''Bravio'') = wakeWord
   \<and> spoken (handleResult ''Bravio'' (Resolved None) initialApp) = [listeningPrompt]
   \<and> dispatched (handleResult ''Bravio'' (Resolved None) initialApp) = []
   \<and> \<not> (startsWith (trim (toLowerCase ''what time is it'')) wakeWord
       \<and> trim (substring (trim ''what time is it'') (length wakeWord)) \<noteq> [])
   \<and> spoken (handleResult ''what time is it'' (Resolved None) initialApp) = [wakeReminder]
   \<and> dispatched (handleResult ''what time is it'' (Resolved None) initialApp) = []"
proof -
  have a: "trim (substring (trim ''Bravio'') (length wakeWord)) = []"
    by code_simp
  have a': "toLowerCase (trim ''Bravio'') = wakeWord"
    by code_simp
  have a'': "startsWith (trim (toLowerCase ''Bravio'')) wakeWord"
    by code_simp
  have b: "\<not> startsWith (trim (toLowerCase ''what time is it'')) wakeWord"
    by code_simp
  have c: "dispatched initialApp = []" "spoken initialApp = []"
    by (simp_all add: dispatched_def spoken_def initialApp_def)
  show ?thesis
    using handleResult_guides_without_dispatch [of "''Bravio''" "Resolved None" initialApp]
      handleResult_guides_without_dispatch [of "''what time is it''" "Resolved None" initialApp]
      a a' a'' b c
    by simp
qed

text \<open>
  Claim C3, as the code has it. When the machine is in LISTENING and recognition yields a
  final transcript that is empty or malformed (no wake name, or the wake name with an empty
  remainder), the machine dispatches no command and goes to SPEAKING, not to IDLE: the
  result handler speaks the guidance message and adds it to the transcript.
\<close>

theorem malformed_result_goes_to_speaking:
  "appState s = LISTENING \<Longrightarrow>
   \<not> (startsWith (trim (toLowerCase u)) wakeWord
       \<and> trim (substring (trim u) (length wakeWord)) \<noteq> []) \<Longrightarrow>
     appState (handleResult u r s) = SPEAKING
   \<and> dispatched (handleResult u r s) = dispatched s
   \<and> spoken (handleResult u r s) = spoken s @
        [if startsWith (trim (toLowerCase u)) wakeWord then listeningPrompt else wakeReminder]
   \<and> transcript (handleResult u r s) = transcript s @
        [\<lparr>author = assistant, itemText =
            (if startsWith (trim (toLowerCase u)) wakeWord then listeningPrompt else wakeReminder)\<rparr>]"
  by (simp add: handleResult_invalid speakAndDisplay_fields dispatched_def spoken_def
      dispatchedIn_append spokenIn_append)

theorem malformed_result_goes_to_speaking_witness:
  "appState (initialApp\<lparr>appState := LISTENING\<rparr>) = LISTENING
   \<and> \<not> (startsWith (trim (toLowerCase [])) wakeWord
       \<and> trim (substring (trim []) (length wakeWord)) \<noteq> [])
   \<and> appState (handleResult [] (Resolved None) (initialApp\<lparr>appState := LISTENING\<rparr>)) = SPEAKING
   \<and> dispatched (handleResult [] (Resolved None) (initialApp\<lparr>appState := LISTENING\<rparr>)) = []
   \<and> spoken (handleResult [] (Resolved None) (initialApp\<lparr>appState := LISTENING\<rparr>))
        = [wakeReminder]
   \<and> transcript (handleResult [] (Resolved None) (initialApp\<lparr>appState := LISTENING\<rparr>))
        = [\<lparr>author = assistant, itemText = wakeReminder\<rparr>]"
proof -
  have a: "\<not> startsWith (trim (toLowerCase [])) wakeWord"
    by code_simp
  have b: "appState (initialApp\<lparr>appState := LISTENING\<rparr>) = LISTENING"
    by simp
  have c: "spoken (initialApp\<lparr>appState := LISTENING\<rparr>) = []"
    "dispatched (initialApp\<lparr>appState := LISTENING\<rparr>) = []"
    "transcript (initialApp\<lparr>appState := LISTENING\<rparr>) = []"
    by (simp_all add: spoken_def dispatched_def initialApp_def)
  show ?thesis
    using malformed_result_goes_to_speaking [of "initialApp\<lparr>appState := LISTENING\<rparr>" "[]"
        "Resolved None"] a b c
    by simp
qed

text \<open>
  The claim as the specification words it fails: in LISTENING, on the utterance \<open>hello\<close>
  (no wake name) and on the utterance \<open>bravio\<close> (the wake name alone), the state after
  \<open>handleResult\<close> is SPEAKING.
\<close>

theorem malformed_result_not_idle:
  "appState (initialApp\<lparr>appState := LISTENING\<rparr>) = LISTENING
   \<and> \<not> startsWith (trim (toLowerCase ''hello'')) wakeWord
   \<and> appState (handleResult ''hello'' (Resolved None) (initialApp\<lparr>appState := LISTENING\<rparr>))
        \<noteq> IDLE
   \<and> appState (handleResult ''hello'' (Resolved None) (initialApp\<lparr>appState := LISTENING\<rparr>))
        = SPEAKING
   \<and> trim (substring (trim ''bravio'') (length wakeWord)) = []
   \<and> appState (handleResult ''bravio'' (Resolved None) (initialApp\<lparr>appState := LISTENING\<rparr>))
        = SPEAKING"
proof -
  have a: "\<not> startsWith (trim (toLowerCase ''hello'')) wakeWord"
    by code_simp
  have b: "trim (substring (trim ''bravio'') (length wakeWord)) = []"
    by code_simp
  show ?thesis
    using a b by (simp add: handleResult_invalid speakAndDisplay_fields)
qed

subsection \<open>User actions while the machine is busy\<close>









subsection \<open>Failures inside the dispatcher\<close>

lemma processCommand_caught:
  "processCommandTry c r (processCommandBegin c s) = Inl (e, s') \<Longrightarrow>
   processCommand c r s =
     speakAndDisplay (if e = Error ''network-offline'' then offlineMessage else serviceErrorMessage)
       assistant (emit ConsoleError s')"
  by (simp add: processCommand_def processCommandCatch_def)

lemma messages_differ: "offlineMessage \<noteq> serviceErrorMessage"
  by (simp add: offlineMessage_def serviceErrorMessage_def)

text \<open>
  Claim C5, as the code has it. Every run of the dispatcher ends in SPEAKING with one
  message spoken and added to the transcript, and every value thrown inside its \<open>try\<close>
  block is caught and turned into such a message, so nothing is thrown past its boundary.
  With the chat session initialised, the browser reporting offline before the call yields
  the offline message. A rejection of the remote call yields the generic message of the
  AI service, except a rejection that is itself an \<open>Error\<close> with the message
  \<open>network-offline\<close>, which yields the offline message as well. A missing chat session
  yields the generic message.
\<close>

theorem dispatcher_failures_are_spoken:
  "appState (processCommand c r s) = SPEAKING
   \<and> (\<exists>m. m \<noteq> [] \<and> spoken (processCommand c r s) = spoken s @ [m]
          \<and> transcript (processCommand c r s) = transcript s @
               [\<lparr>author = user, itemText = c\<rparr>, \<lparr>author = assistant, itemText = m\<rparr>])
   \<and> (\<forall>e s'. processCommandTry c r (processCommandBegin c s) = Inl (e, s') \<longrightarrow>
         processCommand c r s =
           speakAndDisplay
             (if e = Error ''network-offline'' then offlineMessage else serviceErrorMessage)
             assistant (emit ConsoleError s'))
   \<and> (geminiChat s \<and> \<not> onLine s \<longrightarrow>
         spoken (processCommand c r s) = spoken s @ [offlineMessage])
   \<and> (geminiChat s \<and> onLine s \<longrightarrow>
         spoken (processCommand c (Rejected e) s) = spoken s @
           [if e = Error ''network-offline'' then offlineMessage else serviceErrorMessage])
   \<and> (\<not> geminiChat s \<longrightarrow>
         spoken (processCommand c r s) = spoken s @ [serviceErrorMessage])"
  using processCommand_transcript [of c r s]
  by (auto simp add: processCommand_fields processCommand_caught processCommand_offline
      processCommand_rejected processCommand_uninitialised spoken_speakAndDisplay spoken_emit)

theorem dispatcher_failures_are_spoken_witness:
  "processCommandTry ''hi'' (Resolved None) (processCommandBegin ''hi'' (initialApp\<lparr>onLine := False\<rparr>))
      = Inl (Error ''network-offline'', processCommandBegin ''hi'' (initialApp\<lparr>onLine := False\<rparr>))
   \<and> processCommand ''hi'' (Resolved None) (initialApp\<lparr>onLine := False\<rparr>)
      = speakAndDisplay offlineMessage assistant
          (emit ConsoleError (processCommandBegin ''hi'' (initialApp\<lparr>onLine := False\<rparr>)))
   \<and> geminiChat (initialApp\<lparr>onLine := False\<rparr>) \<and> \<not> onLine (initialApp\<lparr>onLine := False\<rparr>)
   \<and> spoken (processCommand ''hi'' (Resolved None) (initialApp\<lparr>onLine := False\<rparr>)) = [offlineMessage]
   \<and> geminiChat initialApp \<and> onLine initialApp
   \<and> spoken (processCommand ''hi'' (Rejected (Error ''quota exceeded'')) initialApp)
      = [serviceErrorMessage]
   \<and> \<not> geminiChat (initialApp\<lparr>geminiChat := False\<rparr>)
   \<and> spoken (processCommand ''hi'' (Resolved None) (initialApp\<lparr>geminiChat := False\<rparr>))
      = [serviceErrorMessage]"
proof -
  have thrown: "processCommandTry ''hi'' (Resolved None)
        (processCommandBegin ''hi'' (initialApp\<lparr>onLine := False\<rparr>))
      = Inl (Error ''network-offline'', processCommandBegin ''hi'' (initialApp\<lparr>onLine := False\<rparr>))"
    by (simp add: processCommandTry_def processCommandBegin_fields initialApp_def)
  have off: "geminiChat (initialApp\<lparr>onLine := False\<rparr>) \<and> \<not> onLine (initialApp\<lparr>onLine := False\<rparr>)"
    by (simp add: initialApp_def)
  have on: "geminiChat initialApp \<and> onLine initialApp"
    by (simp add: initialApp_def)
  have nochat: "\<not> geminiChat (initialApp\<lparr>geminiChat := False\<rparr>)"
    by simp
  have quiet: "spoken (initialApp\<lparr>onLine := False\<rparr>) = []" "spoken initialApp = []"
    "spoken (initialApp\<lparr>geminiChat := False\<rparr>) = []"
    by (simp_all add: spoken_def initialApp_def)
  note offline = dispatcher_failures_are_spoken
    [of "''hi''" "Resolved None" "initialApp\<lparr>onLine := False\<rparr>"]
  note online = dispatcher_failures_are_spoken
    [of "''hi''" "Resolved None" initialApp "Error ''quota exceeded''"]
  note missing = dispatcher_failures_are_spoken
    [of "''hi''" "Resolved None" "initialApp\<lparr>geminiChat := False\<rparr>"]
  have caught: "processCommand ''hi'' (Resolved None) (initialApp\<lparr>onLine := False\<rparr>)
      = speakAndDisplay
          (if Error ''network-offline'' = Error ''network-offline'' then offlineMessage
           else serviceErrorMessage) assistant
          (emit ConsoleError (processCommandBegin ''hi'' (initialApp\<lparr>onLine := False\<rparr>)))"
    using offline thrown by blast
  have w1: "spoken (processCommand ''hi'' (Resolved None) (initialApp\<lparr>onLine := False\<rparr>))
      = spoken (initialApp\<lparr>onLine := False\<rparr>) @ [offlineMessage]"
    using offline off by blast
  have w2: "spoken (processCommand ''hi'' (Rejected (Error ''quota exceeded'')) initialApp)
      = spoken initialApp @ [if Error ''quota exceeded'' = Error ''network-offline''
          then offlineMessage else serviceErrorMessage]"
    using online on by blast
  have w3: "spoken (processCommand ''hi'' (Resolved None) (initialApp\<lparr>geminiChat := False\<rparr>))
      = spoken (initialApp\<lparr>geminiChat := False\<rparr>) @ [serviceErrorMessage]"
    using missing nochat by blast
  show ?thesis
    using thrown caught off on nochat w1 w2 w3 by (simp add: quiet)
qed

text \<open>
  The claim as the specification words it (the offline message for a failure while the
  browser reports offline, the generic message for any other failure) fails where the
  browser reports online and the remote call rejects with an \<open>Error\<close> whose message is
  \<open>network-offline\<close>: the \<open>catch\<close> block tells the failures apart by that message alone.
\<close>

theorem rejection_named_offline_while_online:
  "geminiChat initialApp \<and> onLine initialApp
   \<and> spoken (processCommand ''hi'' (Rejected (Error ''network-offline'')) initialApp)
       = [offlineMessage]
   \<and> spoken (processCommand ''hi'' (Rejected (Error ''network-offline'')) initialApp)
       \<noteq> [serviceErrorMessage]"
proof -
  have on: "geminiChat initialApp \<and> onLine initialApp"
    by (simp add: initialApp_def)
  have quiet: "spoken initialApp = []"
    by (simp add: spoken_def initialApp_def)
  show ?thesis
    using on by (simp add: processCommand_rejected spoken_speakAndDisplay spoken_emit quiet
        messages_differ)
qed

subsection \<open>Empty replies\<close>

lemma emptyResponseMessage_nonempty: "emptyResponseMessage \<noteq> []"
  by (simp add: emptyResponseMessage_def)

lemma processCommand_empty_reply:
  assumes "geminiChat s" "onLine s" "t = None \<or> (\<exists>x. t = Some x \<and> trim x = [])"
  shows "processCommand c (Resolved t) s =
    speakAndDisplay emptyResponseMessage assistant (emit (SendMessage c) (processCommandBegin c s))"
  using assms by (auto simp add: processCommand_resolved)

text \<open>
  Claim C6. For every remote reply whose text is missing or whose trimmed text is empty,
  white space only included, the dispatcher puts the fixed fallback message in the
  assistant's transcript entry and speaks it. The fallback is not empty, so with a command
  that is not empty (both callers check that) no entry appended on this path has an empty
  text.
\<close>

theorem empty_reply_falls_back:
  "geminiChat s \<Longrightarrow> onLine s \<Longrightarrow> t = None \<or> (\<exists>x. t = Some x \<and> trim x = []) \<Longrightarrow>
     transcript (processCommand c (Resolved t) s) = transcript s @
       [\<lparr>author = user, itemText = c\<rparr>, \<lparr>author = assistant, itemText = emptyResponseMessage\<rparr>]
   \<and> spoken (processCommand c (Resolved t) s) = spoken s @ [emptyResponseMessage]
   \<and> appState (processCommand c (Resolved t) s) = SPEAKING
   \<and> emptyResponseMessage \<noteq> []
   \<and> (c \<noteq> [] \<longrightarrow>
        (\<forall>entry \<in> set (drop (length (transcript s)) (transcript (processCommand c (Resolved t) s))).
           itemText entry \<noteq> []))
   \<and> (\<forall>x. (\<forall>ch \<in> set x. isWhiteSpace ch) \<longrightarrow> trim x = [])"
  by (simp add: processCommand_empty_reply speakAndDisplay_fields processCommandBegin_fields
      emit_fields spoken_speakAndDisplay spoken_emit emptyResponseMessage_nonempty trim_Nil_iff)


theorem empty_reply_falls_back_witness:
  "geminiChat initialApp \<and> onLine initialApp
   \<and> isWhiteSpace (CHR '' '') \<and> trim '' '' = []
   \<and> transcript (processCommand ''hi'' (Resolved (Some '' '')) initialApp) =
       [\<lparr>author = user, itemText = ''hi''\<rparr>,
        \<lparr>author = assistant, itemText = emptyResponseMessage\<rparr>]
   \<and> spoken (processCommand ''hi'' (Resolved (Some '' '')) initialApp) = [emptyResponseMessage]
   \<and> emptyResponseMessage \<noteq> [] \<and> ''hi'' \<noteq> []
   \<and> list_all (\<lambda>entry. itemText entry \<noteq> [])
        (transcript (processCommand ''hi'' (Resolved (Some '' '')) initialApp))"
proof -
  have on: "geminiChat initialApp" "onLine initialApp"
    by (simp_all add: initialApp_def)
  have blank: "isWhiteSpace (CHR '' '')"
    by (simp add: isWhiteSpace_def)
  have trimmed: "trim '' '' = []"
    by code_simp
  have start: "transcript initialApp = []" "spoken initialApp = []"
    by (simp_all add: spoken_def initialApp_def)
  have reply: "Some '' '' = None \<or> (\<exists>x. Some '' '' = Some x \<and> trim x = [])"
    by (simp add: trimmed)
  note fallback = empty_reply_falls_back [OF on reply, of "''hi''"]
  have entries: "transcript (processCommand ''hi'' (Resolved (Some '' '')) initialApp) =
      transcript initialApp @ [\<lparr>author = user, itemText = ''hi''\<rparr>,
        \<lparr>author = assistant, itemText = emptyResponseMessage\<rparr>]"
    using fallback by (rule conjunct1)
  have said: "spoken (processCommand ''hi'' (Resolved (Some '' '')) initialApp) =
      spoken initialApp @ [emptyResponseMessage]"
    using fallback by (rule conjunct2 [THEN conjunct1])
  have filled: "emptyResponseMessage \<noteq> []"
    using fallback by (rule conjunct2 [THEN conjunct2, THEN conjunct2, THEN conjunct1])
  have "''hi'' \<noteq> [] \<longrightarrow>
      (\<forall>entry \<in> set (drop (length (transcript initialApp))
          (transcript (processCommand ''hi'' (Resolved (Some '' '')) initialApp))).
        itemText entry \<noteq> [])"
    using fallback
    by (rule conjunct2 [THEN conjunct2, THEN conjunct2, THEN conjunct2, THEN conjunct1])
  then have nonblank: "list_all (\<lambda>entry. itemText entry \<noteq> [])
      (transcript (processCommand ''hi'' (Resolved (Some '' '')) initialApp))"
    by (simp add: start list_all_iff)
  show ?thesis
    using on blank trimmed filled nonblank by (simp add: entries said start)
qed

subsection \<open>The user's entry comes first\<close>

text \<open>
  Claim C10. For every command, \<open>processCommand\<close> appends the user's transcript entry
  and sets THINKING before the \<open>try\<close> block, where the failure conditions (missing chat
  session, offline, rejection by the remote) are evaluated: at every throw the entry is
  there and the state is THINKING. The run as a whole appends the user's entry and then
  one entry of the assistant, so the number of entries of the user with this command
  grows by exactly one, also when the remote call never happens (nothing is sent) or
  fails.
\<close>

theorem user_entry_appended_before_failures:
  "transcript (processCommandBegin c s) = transcript s @ [\<lparr>author = user, itemText = c\<rparr>]
   \<and> appState (processCommandBegin c s) = THINKING
   \<and> processCommand c r s =
       (case processCommandTry c r (processCommandBegin c s) of
          Inr s' \<Rightarrow> s' | Inl (e, s') \<Rightarrow> processCommandCatch e s')
   \<and> (\<forall>e s'. processCommandTry c r (processCommandBegin c s) = Inl (e, s') \<longrightarrow>
         transcript s' = transcript s @ [\<lparr>author = user, itemText = c\<rparr>]
       \<and> appState s' = THINKING)
   \<and> (\<exists>m. transcript (processCommand c r s) = transcript s @
         [\<lparr>author = user, itemText = c\<rparr>, \<lparr>author = assistant, itemText = m\<rparr>])
   \<and> count_list (transcript (processCommand c r s)) \<lparr>author = user, itemText = c\<rparr>
       = Suc (count_list (transcript s) \<lparr>author = user, itemText = c\<rparr>)
   \<and> (\<not> geminiChat s \<or> \<not> onLine s \<longrightarrow>
        sentIn (trace (processCommand c r s)) = sentIn (trace s))"
proof -
  have thrown: "transcript s' = transcript s @ [\<lparr>author = user, itemText = c\<rparr>]
      \<and> appState s' = THINKING"
    if "processCommandTry c r (processCommandBegin c s) = Inl (e, s')" for e s'
    using that
    by (auto simp add: processCommandTry_def processCommandBegin_fields emit_def Let_def
        split: if_splits remote.splits)
  have unsent: "sentIn (trace (processCommand c r s)) = sentIn (trace s)"
    if "\<not> geminiChat s \<or> \<not> onLine s"
    using that
    by (cases "geminiChat s")
      (simp_all add: processCommand_uninitialised processCommand_offline speakAndDisplay_fields
        emit_def processCommandBegin_fields sentIn_append)
  show ?thesis
    using processCommand_transcript [of c r s] thrown unsent
    by (auto simp add: processCommandBegin_fields processCommand_def count_list_append)
qed

theorem user_entry_appended_before_failures_witness:
  "processCommandTry ''hi'' (Resolved None)
        (processCommandBegin ''hi'' (initialApp\<lparr>onLine := False\<rparr>))
      = Inl (Error ''network-offline'', processCommandBegin ''hi'' (initialApp\<lparr>onLine := False\<rparr>))
   \<and> transcript (processCommandBegin ''hi'' (initialApp\<lparr>onLine := False\<rparr>))
      = [\<lparr>author = user, itemText = ''hi''\<rparr>]
   \<and> appState (processCommandBegin ''hi'' (initialApp\<lparr>onLine := False\<rparr>)) = THINKING
   \<and> count_list (transcript (processCommand ''hi'' (Resolved None) (initialApp\<lparr>onLine := False\<rparr>)))
        \<lparr>author = user, itemText = ''hi''\<rparr> = 1
   \<and> sentIn (trace (processCommand ''hi'' (Resolved None) (initialApp\<lparr>onLine := False\<rparr>))) = []"
proof -
  have thrown: "processCommandTry ''hi'' (Resolved None)
        (processCommandBegin ''hi'' (initialApp\<lparr>onLine := False\<rparr>))
      = Inl (Error ''network-offline'', processCommandBegin ''hi'' (initialApp\<lparr>onLine := False\<rparr>))"
    by (simp add: processCommandTry_def processCommandBegin_fields initialApp_def)
  have off: "\<not> geminiChat (initialApp\<lparr>onLine := False\<rparr>) \<or> \<not> onLine (initialApp\<lparr>onLine := False\<rparr>)"
    by simp
  have start: "transcript (initialApp\<lparr>onLine := False\<rparr>) = []"
    "trace (initialApp\<lparr>onLine := False\<rparr>) = []"
    by (simp_all add: initialApp_def)
  note first = user_entry_appended_before_failures
    [of "''hi''" "initialApp\<lparr>onLine := False\<rparr>" "Resolved None"]
  have at_throw: "transcript (processCommandBegin ''hi'' (initialApp\<lparr>onLine := False\<rparr>))
        = transcript (initialApp\<lparr>onLine := False\<rparr>) @ [\<lparr>author = user, itemText = ''hi''\<rparr>]
      \<and> appState (processCommandBegin ''hi'' (initialApp\<lparr>onLine := False\<rparr>)) = THINKING"
    using first thrown by blast
  have once: "count_list (transcript (processCommand ''hi'' (Resolved None)
        (initialApp\<lparr>onLine := False\<rparr>))) \<lparr>author = user, itemText = ''hi''\<rparr>
      = Suc (count_list (transcript (initialApp\<lparr>onLine := False\<rparr>))
          \<lparr>author = user, itemText = ''hi''\<rparr>)"
    using first by blast
  have unsent: "sentIn (trace (processCommand ''hi'' (Resolved None) (initialApp\<lparr>onLine := False\<rparr>)))
      = sentIn (trace (initialApp\<lparr>onLine := False\<rparr>))"
    using first off by blast
  show ?thesis
    using thrown at_throw once unsent by (simp add: start)
qed

subsection \<open>Recognition errors\<close>

lemma microphoneDenied_truthy: "truthy (Some microphoneDenied)"
  by (simp add: truthy_def microphoneDenied_def)

lemma handleError_permission:
  "code = ''not-allowed'' \<or> code = ''service-not-allowed'' \<Longrightarrow>
   handleError code s =
     (if listenerAppState s = LISTENING then (emit ConsoleError s)\<lparr>appState := IDLE\<rparr>
      else emit ConsoleError s)\<lparr>criticalError := Some microphoneDenied\<rparr>"
  by (auto simp add: handleError_def errorSwitch_def Let_def truthy_def emit_fields)

lemma handleError_other:
  "code \<noteq> ''not-allowed'' \<Longrightarrow> code \<noteq> ''service-not-allowed'' \<Longrightarrow>
   handleError code s =
     speakAndDisplay
       (if code = ''no-speech'' then ''I didn't hear anything. Could you please try again?''
        else if code = ''audio-capture''
          then ''I'm having trouble with your microphone. Please make sure it's connected and enabled.''
        else if code = ''network''
          then ''A network error occurred with the speech service. Please check your internet connection.''
        else ''An error occurred with speech recognition: '' @ code @ ''. Please try again.'')
       assistant
       (if listenerAppState s = LISTENING then (emit ConsoleError s)\<lparr>appState := IDLE\<rparr>
        else emit ConsoleError s)"
  by (simp add: handleError_def errorSwitch_def Let_def truthy_def emit_fields)

lemma criticalError_handleError:
  "truthy (criticalError s) \<Longrightarrow> truthy (criticalError (handleError code s))"
  by (cases "code = ''not-allowed'' \<or> code = ''service-not-allowed''")
    (auto simp add: handleError_permission handleError_other speakAndDisplay_fields emit_fields
      microphoneDenied_truthy)

lemma criticalError_react:
  "truthy (criticalError s) \<Longrightarrow> truthy (criticalError (react ev s))"
proof (cases ev)
  case OrbClick
  assume "truthy (criticalError s)"
  with OrbClick show ?thesis by (simp add: handleOrbClick_def)
next
  case (TextChange v)
  assume "truthy (criticalError s)"
  with TextChange show ?thesis by simp
next
  case (TextSubmit r)
  assume "truthy (criticalError s)"
  with TextSubmit show ?thesis by (simp add: handleTextSubmit_def isDisabled_def)
next
  case (RecognitionResult u r)
  assume "truthy (criticalError s)"
  with RecognitionResult show ?thesis
    by (simp add: handleResult_def Let_def speakAndDisplay_fields processCommand_fields)
next
  case RecognitionEnd
  assume "truthy (criticalError s)"
  with RecognitionEnd show ?thesis by (simp add: handleEnd_def)
next
  case (RecognitionError code)
  assume "truthy (criticalError s)"
  with RecognitionError show ?thesis by (simp add: criticalError_handleError)
next
  case UtteranceEnd
  assume "truthy (criticalError s)"
  with UtteranceEnd show ?thesis by (simp add: utteranceOnEnd_def)
next
  case Rerender
  assume "truthy (criticalError s)"
  with Rerender show ?thesis by (simp add: rerender_def emit_fields)
qed

lemma criticalError_run:
  "truthy (criticalError s) \<Longrightarrow> truthy (criticalError (run evs s))"
  by (induction evs arbitrary: s) (simp_all add: criticalError_react)


text \<open>
  Claim C8. For every recognition error event: the codes \<open>not-allowed\<close> and
  \<open>service-not-allowed\<close> set the critical error, which disables the interface and stays
  set whatever events follow, and speak and transcribe nothing; every other code leaves
  the critical error as it was and speaks, and adds to the transcript, one message fixed
  by the code: three codes have a message of their own, the rest share a message that
  quotes the code.
\<close>

theorem handleError_escalates_permission_errors:
  "(code = ''not-allowed'' \<or> code = ''service-not-allowed'' \<longrightarrow>
       criticalError (handleError code s) = Some microphoneDenied
     \<and> isDisabled (handleError code s)
     \<and> (\<forall>evs. isDisabled (run evs (handleError code s)))
     \<and> spoken (handleError code s) = spoken s
     \<and> transcript (handleError code s) = transcript s)
   \<and> (code \<noteq> ''not-allowed'' \<and> code \<noteq> ''service-not-allowed'' \<longrightarrow>
       criticalError (handleError code s) = criticalError s
     \<and> appState (handleError code s) = SPEAKING
     \<and> (\<exists>m. m =
           (if code = ''no-speech'' then ''I didn't hear anything. Could you please try again?''
            else if code = ''audio-capture''
              then ''I'm having trouble with your microphone. Please make sure it's connected and enabled.''
            else if code = ''network''
              then ''A network error occurred with the speech service. Please check your internet connection.''
            else ''An error occurred with speech recognition: '' @ code @ ''. Please try again.'')
          \<and> spoken (handleError code s) = spoken s @ [m]
          \<and> transcript (handleError code s) = transcript s @ [\<lparr>author = assistant, itemText = m\<rparr>]))"
proof (cases "code = ''not-allowed'' \<or> code = ''service-not-allowed''")
  case True
  have set: "criticalError (handleError code s) = Some microphoneDenied"
    using True by (simp add: handleError_permission)
  then have "truthy (criticalError (run evs (handleError code s)))" for evs
    by (simp add: criticalError_run microphoneDenied_truthy)
  then have locked: "isDisabled (run evs (handleError code s))" for evs
    by (simp add: isDisabled_def)
  have "isDisabled (handleError code s)"
    using locked [of "[]"] by simp
  moreover have "spoken (handleError code s) = spoken s"
    using True by (simp add: handleError_permission spoken_def emit_def spokenIn_append)
  moreover have "transcript (handleError code s) = transcript s"
    using True by (simp add: handleError_permission emit_fields)
  ultimately show ?thesis
    using True set locked by blast
next
  case False
  then have other: "code \<noteq> ''not-allowed''" "code \<noteq> ''service-not-allowed''"
    by simp_all
  have quiet: "spoken (if listenerAppState s = LISTENING then (emit ConsoleError s)\<lparr>appState := IDLE\<rparr>
        else emit ConsoleError s) = spoken s"
    by (simp add: spoken_def emit_def spokenIn_append)
  show ?thesis
    using False
    by (simp add: handleError_other [OF other] speakAndDisplay_fields spoken_speakAndDisplay
        quiet emit_fields)
qed

theorem handleError_escalates_permission_errors_witness:
  "(''not-allowed'' = ''not-allowed'' \<or> ''not-allowed'' = ''service-not-allowed'')
   \<and> criticalError (handleError ''not-allowed'' (initialApp\<lparr>appState := LISTENING\<rparr>))
       = Some microphoneDenied
   \<and> isDisabled (run [OrbClick, TextChange ''hi'', TextSubmit (Resolved None)]
        (handleError ''not-allowed'' (initialApp\<lparr>appState := LISTENING\<rparr>)))
   \<and> spoken (handleError ''not-allowed'' (initialApp\<lparr>appState := LISTENING\<rparr>)) = []
   \<and> ''aborted'' \<noteq> ''not-allowed'' \<and> ''aborted'' \<noteq> ''service-not-allowed''
   \<and> criticalError (handleError ''aborted'' (initialApp\<lparr>appState := LISTENING\<rparr>)) = None
   \<and> spoken (handleError ''aborted'' (initialApp\<lparr>appState := LISTENING\<rparr>))
       = [''An error occurred with speech recognition: aborted. Please try again.'']"
proof -
  have denied: "''not-allowed'' = ''not-allowed'' \<or> ''not-allowed'' = ''service-not-allowed''"
    by simp
  have other: "''aborted'' \<noteq> ''not-allowed'' \<and> ''aborted'' \<noteq> ''service-not-allowed''"
    by simp
  have start: "spoken (initialApp\<lparr>appState := LISTENING\<rparr>) = []"
    "criticalError (initialApp\<lparr>appState := LISTENING\<rparr>) = None"
    by (simp_all add: spoken_def initialApp_def)
  note escalated = handleError_escalates_permission_errors
    [of "''not-allowed''" "initialApp\<lparr>appState := LISTENING\<rparr>"]
  note mapped = handleError_escalates_permission_errors
    [of "''aborted''" "initialApp\<lparr>appState := LISTENING\<rparr>"]
  have w1: "criticalError (handleError ''not-allowed'' (initialApp\<lparr>appState := LISTENING\<rparr>))
      = Some microphoneDenied"
    using escalated denied by blast
  have w2: "isDisabled (run [OrbClick, TextChange ''hi'', TextSubmit (Resolved None)]
      (handleError ''not-allowed'' (initialApp\<lparr>appState := LISTENING\<rparr>)))"
    using escalated denied by blast
  have w3: "spoken (handleError ''not-allowed'' (initialApp\<lparr>appState := LISTENING\<rparr>))
      = spoken (initialApp\<lparr>appState := LISTENING\<rparr>)"
    using escalated denied by blast
  have w4: "criticalError (handleError ''aborted'' (initialApp\<lparr>appState := LISTENING\<rparr>))
      = criticalError (initialApp\<lparr>appState := LISTENING\<rparr>)"
    using mapped other by blast
  have w5: "spoken (handleError ''aborted'' (initialApp\<lparr>appState := LISTENING\<rparr>))
      = spoken (initialApp\<lparr>appState := LISTENING\<rparr>)
        @ [''An error occurred with speech recognition: aborted. Please try again.'']"
    using mapped other by simp
  show ?thesis
    using denied other w2 by (simp add: w1 w3 w4 w5 start)
qed

end
